theory Spec2Isabelle
  imports Complex_Main "HOL-Library.Sublist" "HOL-Library.AList" "HOL-Library.Multiset"
    "HOL-Library.Product_Lexorder" "HOL-Library.Log_Nat"
begin

section \<open>Python values\<close>

text \<open>
  A Python \<open>str\<close> is a sequence of Unicode code points, so \<open>len\<close> is \<open>length\<close>.
  Literals of the source are written with \<open>str\<close>; the few non-ASCII letters of the
  keyword tables are given by their code points.
\<close>

type_synonym pystr = "nat list"

definition str :: "string \<Rightarrow> pystr" where
  "str s = map of_char s"

definition euro :: nat where
  "euro = 8364"

definition e_acute :: nat where
  "e_acute = 233"

definition u_circ :: nat where
  "u_circ = 251"

text \<open>
  A Python \<open>float\<close> is an IEEE double: a rational that a double holds, an infinity or
  NaN. The sign of zero is not kept (\<open>-0.0 == 0.0\<close>, and nothing here tells them apart).
  \<open>fl\<close> rounds a rational to the nearest double, ties to even; it is exact for the normal
  range of doubles, which holds every length divided by 1000 and every sum below.
\<close>

datatype pyfloat = Fin rat | PosInf | NegInf | NaN

definition pow2 :: "int \<Rightarrow> rat" where
  "pow2 e = (if 0 \<le> e then 2 ^ nat e else 1 / 2 ^ nat (- e))"

definition float_exponent :: "rat \<Rightarrow> int" where
  "float_exponent x =
     (let k = bitlen (fst (quotient_of x)) - bitlen (snd (quotient_of x))
      in if pow2 k \<le> x then k else k - 1)"

definition round_half_even :: "rat \<Rightarrow> int" where
  "round_half_even x =
     (let f = \<lfloor>x\<rfloor>; d = x - of_int f
      in if d < 1 / 2 then f else if 1 / 2 < d then f + 1 else if even f then f else f + 1)"

definition fl :: "rat \<Rightarrow> rat" where
  "fl x =
     (if x = 0 then 0
      else (let e = float_exponent \<bar>x\<bar> - 52
            in sgn x * of_int (round_half_even (\<bar>x\<bar> / pow2 e)) * pow2 e))"

definition fadd :: "rat \<Rightarrow> rat \<Rightarrow> rat" where
  "fadd a b = fl (a + b)"

fun fneg :: "pyfloat \<Rightarrow> pyfloat" where
  "fneg (Fin r) = Fin (- r)"
| "fneg PosInf = NegInf"
| "fneg NegInf = PosInf"
| "fneg NaN = NaN"

text \<open>The place of a float that is not NaN in the order of the floats.\<close>

fun float_rank :: "pyfloat \<Rightarrow> int \<times> rat" where
  "float_rank NegInf = (- 1, 0)"
| "float_rank (Fin r) = (0, r)"
| "float_rank PosInf = (1, 0)"
| "float_rank NaN = (2, 0)"

text \<open>
  The values a provider can hand back are the values of \<open>json.loads\<close>. A \<open>dict\<close> is an
  association list in insertion order; \<^const>\<open>AList.update\<close> overwrites a key in place and
  appends a new key at the end, as assignment to a Python dict does.
\<close>

datatype pyval =
    PNone
  | PBool bool
  | PInt int
  | PNum pyfloat
  | PStr pystr
  | PList "pyval list"
  | PDict "(pystr \<times> pyval) list"

type_synonym pydict = "(pystr \<times> pyval) list"

datatype py_error = TypeError | ValueError | IndexError | OverflowError | OtherError pystr

text \<open>\<open>kw in s\<close> for two strings: \<open>kw\<close> occurs in \<open>s\<close> as a contiguous block.\<close>

fun str_in :: "pystr \<Rightarrow> pystr \<Rightarrow> bool" where
  "str_in kw [] = (kw = [])"
| "str_in kw (c # cs) = (prefix kw (c # cs) \<or> str_in kw cs)"

text \<open>\<open>sep.join(parts)\<close> for strings.\<close>

fun join :: "pystr \<Rightarrow> pystr list \<Rightarrow> pystr" where
  "join sep [] = []"
| "join sep [x] = x"
| "join sep (x # y # ys) = x @ sep @ join sep (y # ys)"

text \<open>Truth value of an object, as \<open>if x:\<close> tests it.\<close>

fun truthy :: "pyval \<Rightarrow> bool" where
  "truthy PNone = False"
| "truthy (PBool b) = b"
| "truthy (PInt i) = (i \<noteq> 0)"
| "truthy (PNum f) = (f \<noteq> Fin 0)"
| "truthy (PStr s) = (s \<noteq> [])"
| "truthy (PList xs) = (xs \<noteq> [])"
| "truthy (PDict d) = (d \<noteq> [])"

text \<open>Lists and dicts are unhashable: using one as a dict key or set element raises \<open>TypeError\<close>.\<close>

fun hashable :: "pyval \<Rightarrow> bool" where
  "hashable (PList xs) = False"
| "hashable (PDict d) = False"
| "hashable v = True"

text \<open>
  Equality of hashable values: numbers by value (\<open>True == 1 == 1.0\<close>), NaN equal to
  nothing, everything else by value. Two values of the model are two objects: the identity
  test that lets a set or a dict find the very same NaN object again is not modelled.
\<close>

fun py_num :: "pyval \<Rightarrow> pyfloat option" where
  "py_num (PBool b) = Some (Fin (if b then 1 else 0))"
| "py_num (PInt i) = Some (Fin (of_int i))"
| "py_num (PNum f) = Some f"
| "py_num v = None"

definition py_eq :: "pyval \<Rightarrow> pyval \<Rightarrow> bool" where
  "py_eq a b =
     (case (py_num a, py_num b) of
        (Some x, Some y) \<Rightarrow> x = y \<and> x \<noteq> NaN
      | (None, None) \<Rightarrow> a = b
      | _ \<Rightarrow> False)"

text \<open>
  Iterating over an object, as \<open>list.extend\<close> does: a list gives its elements, a string
  its characters, a dict its keys; anything else raises \<open>TypeError\<close>.
\<close>

fun py_iter :: "pyval \<Rightarrow> py_error + pyval list" where
  "py_iter (PList xs) = Inr xs"
| "py_iter (PStr s) = Inr (map (\<lambda>c. PStr [c]) s)"
| "py_iter (PDict d) = Inr (map (\<lambda>kv. PStr (fst kv)) d)"
| "py_iter v = Inl TypeError"

text \<open>
  \<open>list(set(xs))\<close>: \<open>TypeError\<close> on an unhashable element, otherwise one representative
  (the first inserted) of every class of equal elements. The iteration order of a Python
  set is unspecified; the model lists the representatives in insertion order.
\<close>

fun set_insert :: "pyval \<Rightarrow> pyval list \<Rightarrow> pyval list" where
  "set_insert x [] = [x]"
| "set_insert x (y # ys) = (if py_eq y x then y # ys else y # set_insert x ys)"

definition list_set :: "pyval list \<Rightarrow> py_error + pyval list" where
  "list_set xs =
     (if list_all hashable xs then Inr (fold set_insert xs []) else Inl TypeError)"

text \<open>\<open>d.update(e)\<close> and \<open>xs[:m]\<close>.\<close>

definition dict_update :: "pydict \<Rightarrow> pydict \<Rightarrow> pydict" where
  "dict_update d e = fold (\<lambda>kv acc. AList.update (fst kv) (snd kv) acc) e d"

definition slice_to :: "'a list \<Rightarrow> int \<Rightarrow> 'a list" where
  "slice_to xs m = (if 0 \<le> m then take (nat m) xs else take (length xs - nat (- m)) xs)"

section \<open>The analysis of a chunk\<close>

text \<open>
  The dataclass \<open>ChunkAnalysis\<close>. Its fields are not type checked: apart from the score
  and the priority, which \<open>float\<close> and \<open>int\<close> convert, they hold what the provider
  returned.
\<close>

record chunk_analysis =
  chunk_index :: nat
  content_type :: pyval
  relevance_score :: pyfloat
  contains_specs :: pyval
  contains_pricing :: pyval
  contains_review :: pyval
  key_topics :: pyval
  priority :: int

section \<open>Library functions taken as parameters\<close>

text \<open>
  \<open>str.lower\<close>, \<open>urllib.parse.urlparse(url).netloc\<close> (which raises \<open>ValueError\<close> on a
  malformed URL), \<open>float(s)\<close> and \<open>int(s)\<close> on strings, and the character classes \<open>\d\<close>
  and \<open>\s\<close> of \<open>re\<close> belong to the Python library. They are parameters of the model, and
  the general theorems hold for every choice of them. So is the order in which \<open>sorted\<close>
  leaves a list some of whose keys are NaN: comparisons with NaN are all false, and the
  result then depends on the sorting algorithm.
\<close>

record pylib =
  str_lower :: "pystr \<Rightarrow> pystr"
  url_netloc :: "pystr \<Rightarrow> py_error + pystr"
  float_of_str :: "pystr \<Rightarrow> py_error + pyfloat"
  int_of_str :: "pystr \<Rightarrow> py_error + int"
  is_digit :: "nat \<Rightarrow> bool"
  is_space :: "nat \<Rightarrow> bool"
  sorted_with_nan :: "chunk_analysis list \<Rightarrow> chunk_analysis list"

text \<open>
  A concrete instance for evaluation on ASCII text: lowering of \<open>A\<close>..\<open>Z\<close> and of the
  Latin-1 capitals, the ASCII digits and blanks, and the network location of a URL as
  \<open>urlsplit\<close> finds it (after \<open>scheme:\<close>, between \<open>//\<close> and the next \<open>/\<close>, \<open>?\<close> or \<open>#\<close>,
  with unbalanced brackets refused). Number parsing handles no string, and a list with a
  NaN key is left as it is.
\<close>

definition lower_cp :: "nat \<Rightarrow> nat" where
  "lower_cp c =
     (if 65 \<le> c \<and> c \<le> 90 then c + 32
      else if 192 \<le> c \<and> c \<le> 222 \<and> c \<noteq> 215 then c + 32
      else c)"

definition ascii_alpha :: "nat \<Rightarrow> bool" where
  "ascii_alpha c = ((97 \<le> c \<and> c \<le> 122) \<or> (65 \<le> c \<and> c \<le> 90))"

definition scheme_char :: "nat \<Rightarrow> bool" where
  "scheme_char c = (ascii_alpha c \<or> (48 \<le> c \<and> c \<le> 57) \<or> c = 43 \<or> c = 45 \<or> c = 46)"

definition strip_scheme :: "pystr \<Rightarrow> pystr" where
  "strip_scheme url =
     (let pre = takeWhile (\<lambda>c. c \<noteq> 58) url in
      if length pre < length url \<and> pre \<noteq> [] \<and> ascii_alpha (hd pre) \<and> list_all scheme_char pre
      then drop (Suc (length pre)) url
      else url)"

definition ascii_netloc :: "pystr \<Rightarrow> py_error + pystr" where
  "ascii_netloc url =
     (let rest = strip_scheme url in
      if take 2 rest = [47, 47] then
        (let loc = takeWhile (\<lambda>c. c \<noteq> 47 \<and> c \<noteq> 63 \<and> c \<noteq> 35) (drop 2 rest) in
         if (91 \<in> set loc) \<noteq> (93 \<in> set loc) then Inl ValueError else Inr loc)
      else Inr [])"

definition ascii_lib :: pylib where
  "ascii_lib =
     \<lparr> str_lower = map lower_cp,
       url_netloc = ascii_netloc,
       float_of_str = (\<lambda>s. Inl ValueError),
       int_of_str = (\<lambda>s. Inl ValueError),
       is_digit = (\<lambda>c. 48 \<le> c \<and> c \<le> 57),
       is_space = (\<lambda>c. c = 32 \<or> (9 \<le> c \<and> c \<le> 13)),
       sorted_with_nan = (\<lambda>analyses. analyses) \<rparr>"

section \<open>Website types\<close>

datatype website_type = REVIEW | ECOMMERCE | NEWS | BLOG | TECHNICAL | GENERAL

record patterns =
  domains :: "pystr list"
  indicators :: "pystr list"
  priority_sections :: "pystr list"

definition review_patterns :: patterns where
  "review_patterns =
     \<lparr> domains = [str ''frandroid.com'', str ''phonandroid.com'', str ''numerama.com'',
         str ''clubic.com''],
       indicators = [str ''test'', str ''review'', str ''avis'', str ''critique'',
         str ''verdict'', str ''note'', str ''rating''],
       priority_sections = [str ''specs'', str ''pros'', str ''cons'', str ''rating'',
         str ''conclusion''] \<rparr>"

definition ecommerce_patterns :: patterns where
  "ecommerce_patterns =
     \<lparr> domains = [str ''cdiscount.com'', str ''amazon.fr'', str ''fnac.com'', str ''darty.com''],
       indicators = [str ''prix'', str ''acheter'', str ''ajouter panier'', str ''promotion'',
         str ''offre''],
       priority_sections = [str ''price'', str ''product'', str ''offer'', str ''specs'',
         str ''availability''] \<rparr>"

definition news_patterns :: patterns where
  "news_patterns =
     \<lparr> domains = [str ''lemonde.fr'', str ''lefigaro.fr'', str ''bfmtv.com''],
       indicators = [str ''actualit'' @ [e_acute], str ''news'', str ''info'', str ''article''],
       priority_sections = [str ''headline'', str ''summary'', str ''content'',
         str ''details''] \<rparr>"

text \<open>The dict \<open>self.website_patterns\<close>, in insertion order.\<close>

definition website_patterns :: "(website_type \<times> patterns) list" where
  "website_patterns =
     [(REVIEW, review_patterns), (ECOMMERCE, ecommerce_patterns), (NEWS, news_patterns)]"

definition extract_domain :: "pylib \<Rightarrow> pystr \<Rightarrow> py_error + pystr" where
  "extract_domain lib url =
     (case url_netloc lib url of Inl e \<Rightarrow> Inl e | Inr netloc \<Rightarrow> Inr (str_lower lib netloc))"

definition indicator_score :: "pystr list \<Rightarrow> pystr \<Rightarrow> nat" where
  "indicator_score inds content_lower =
     length (filter (\<lambda>indicator. str_in indicator content_lower) inds)"

text \<open>
  In the loop over the known domains the generator expression
  \<open>any(domain in patterns['domains'] for domain in patterns['domains'])\<close> binds its own
  \<open>domain\<close>: the test is on the elements of the list, and the domain of the URL, bound
  outside, is not read.
\<close>

definition detect_website_type :: "pylib \<Rightarrow> pystr \<Rightarrow> pystr \<Rightarrow> py_error + website_type" where
  "detect_website_type lib url content =
     (case extract_domain lib url of
        Inl e \<Rightarrow> Inl e
      | Inr domain \<Rightarrow>
          (let content_lower = str_lower lib content in
           case find (\<lambda>tp. list_ex (\<lambda>domain. domain \<in> set (domains (snd tp))) (domains (snd tp)))
                  website_patterns of
             Some tp \<Rightarrow> Inr (fst tp)
           | None \<Rightarrow>
               (let review_score = indicator_score (indicators review_patterns) content_lower;
                    ecommerce_score = indicator_score (indicators ecommerce_patterns) content_lower
                in if review_score > ecommerce_score \<and> review_score \<ge> 2 then Inr REVIEW
                   else if ecommerce_score \<ge> 2 then Inr ECOMMERCE
                   else Inr GENERAL)))"

section \<open>Heuristic analysis\<close>

definition specs_keywords :: "pystr list" where
  "specs_keywords =
     [str ''processeur'', str ''cpu'', str ''ram'', str ''m'' @ [e_acute] @ str ''moire'',
      str ''stockage'', [e_acute] @ str ''cran'', str ''batterie'', str ''mah'', str ''mp'',
      str ''ghz'']"

definition pricing_keywords :: "pystr list" where
  "pricing_keywords =
     [[euro], str ''prix'', str ''co'' @ [u_circ] @ str ''t'', str ''promotion'', str ''offre'',
      str ''tarif'']"

definition review_keywords :: "pystr list" where
  "review_keywords =
     [str ''points forts'', str ''points faibles'', str ''verdict'', str ''note'', str ''avis'',
      str ''critique'']"

text \<open>\<open>re.search(r'\d+\s*EUR', chunk)\<close> with the euro sign for \<open>EUR\<close>: a match starts anywhere.\<close>

fun re_spaces_euro :: "pylib \<Rightarrow> pystr \<Rightarrow> bool" where
  "re_spaces_euro lib [] = False"
| "re_spaces_euro lib (c # cs) = (c = euro \<or> (is_space lib c \<and> re_spaces_euro lib cs))"

fun re_digits_euro :: "pylib \<Rightarrow> pystr \<Rightarrow> bool" where
  "re_digits_euro lib [] = False"
| "re_digits_euro lib (c # cs) =
     (is_digit lib c \<and> (re_digits_euro lib cs \<or> re_spaces_euro lib cs))"

fun re_price_search :: "pylib \<Rightarrow> pystr \<Rightarrow> bool" where
  "re_price_search lib [] = False"
| "re_price_search lib (c # cs) = (re_digits_euro lib (c # cs) \<or> re_price_search lib cs)"

definition keyword_hits :: "pystr list \<Rightarrow> pystr \<Rightarrow> nat" where
  "keyword_hits kws chunk_lower = length (filter (\<lambda>kw. str_in kw chunk_lower) kws)"

text \<open>
  \<open>flag * 0.3\<close> for a Boolean flag: the double nearest to 0.3, or 0. The score is the sum,
  from left to right in double arithmetic, of the length over 1000 and the three products.
\<close>

definition bonus :: "bool \<Rightarrow> rat \<Rightarrow> rat" where
  "bonus b w = (if b then fl w else 0)"

definition heuristic_analysis :: "pylib \<Rightarrow> pystr \<Rightarrow> nat \<Rightarrow> chunk_analysis" where
  "heuristic_analysis lib chunk index =
     (let chunk_lower = str_lower lib chunk;
          has_specs = (keyword_hits specs_keywords chunk_lower \<ge> 2);
          has_pricing = (list_ex (\<lambda>kw. str_in kw chunk_lower) pricing_keywords
                         \<or> re_price_search lib chunk);
          has_review = (keyword_hits review_keywords chunk_lower \<ge> 1);
          tp = (if has_specs \<and> keyword_hits specs_keywords chunk_lower \<ge> 3
                then (str ''specs'', 1)
                else if has_pricing then (str ''pricing'', 2)
                else if has_review then (str ''review'', 1)
                else (str ''general'', 3));
          score = min 1 (fadd (fadd (fadd (fl (of_nat (length chunk) / 1000))
                                            (bonus has_specs (3 / 10)))
                                      (bonus has_pricing (2 / 10)))
                                (bonus has_review (3 / 10)))
      in \<lparr> chunk_index = index,
           content_type = PStr (fst tp),
           relevance_score = Fin score,
           contains_specs = PBool has_specs,
           contains_pricing = PBool has_pricing,
           contains_review = PBool has_review,
           key_topics = PList [],
           priority = snd tp \<rparr>)"

section \<open>The extraction provider\<close>

text \<open>
  A prompt is kept as the template chosen and the values put into it; the text of a
  prompt is a function of these. \<open>WithText\<close> appends the first 2000 characters of the
  chunk. A provider answers a call \<open>extract(content, instruction, "json")\<close> with a value or
  raises; it is a function of the content and the instruction.
\<close>

datatype analysis_variant = ForReview | ForEcommerce | Plain

datatype prompt =
    AnalysisPrompt analysis_variant pystr
  | SpecsPrompt pystr
  | ReviewPrompt pystr
  | PricingPrompt pystr
  | ProductListPrompt pystr
  | GenericPrompt pyval pystr
  | WithText prompt pystr

type_synonym provider = "pystr \<Rightarrow> prompt \<Rightarrow> py_error + pyval"

definition create_analysis_prompt :: "website_type \<Rightarrow> pystr \<Rightarrow> prompt" where
  "create_analysis_prompt website_type original_query =
     (if website_type = REVIEW then AnalysisPrompt ForReview original_query
      else if website_type = ECOMMERCE then AnalysisPrompt ForEcommerce original_query
      else AnalysisPrompt Plain original_query)"

definition create_specialized_extraction_prompt ::
    "pyval \<Rightarrow> website_type \<Rightarrow> pystr \<Rightarrow> prompt" where
  "create_specialized_extraction_prompt ctype website_type original_query =
     (if ctype = PStr (str ''specs'') \<and> website_type = REVIEW then SpecsPrompt original_query
      else if ctype = PStr (str ''review'') \<and> website_type = REVIEW
        then ReviewPrompt original_query
      else if ctype = PStr (str ''pricing'') then PricingPrompt original_query
      else if ctype = PStr (str ''product_list'') \<and> website_type = ECOMMERCE
        then ProductListPrompt original_query
      else GenericPrompt ctype original_query)"

section \<open>Pass 1: analysis of the chunks\<close>

definition dict_get :: "pydict \<Rightarrow> pystr \<Rightarrow> pyval \<Rightarrow> pyval" where
  "dict_get d k dflt = (case map_of d k of None \<Rightarrow> dflt | Some v \<Rightarrow> v)"

text \<open>
  \<open>float(x)\<close> and \<open>int(x)\<close>. An integer too large for a double raises
  \<open>OverflowError\<close>; \<open>int\<close> truncates a float towards zero and raises on NaN and on
  an infinity.
\<close>

fun py_float :: "pylib \<Rightarrow> pyval \<Rightarrow> py_error + pyfloat" where
  "py_float lib (PBool b) = Inr (Fin (if b then 1 else 0))"
| "py_float lib (PInt i) =
     (if \<bar>fl (of_int i)\<bar> < 2 ^ 1024 then Inr (Fin (fl (of_int i))) else Inl OverflowError)"
| "py_float lib (PNum f) = Inr f"
| "py_float lib (PStr s) = float_of_str lib s"
| "py_float lib v = Inl TypeError"

fun py_int :: "pylib \<Rightarrow> pyval \<Rightarrow> py_error + int" where
  "py_int lib (PBool b) = Inr (if b then 1 else 0)"
| "py_int lib (PInt i) = Inr i"
| "py_int lib (PNum (Fin r)) = Inr (if 0 \<le> r then \<lfloor>r\<rfloor> else \<lceil>r\<rceil>)"
| "py_int lib (PNum NaN) = Inl ValueError"
| "py_int lib (PNum f) = Inl OverflowError"
| "py_int lib (PStr s) = int_of_str lib s"
| "py_int lib v = Inl TypeError"

text \<open>
  Every exception of the \<open>try\<close> block (the provider's, or a failed \<open>float\<close> or \<open>int\<close>)
  is caught, and the chunk falls through to the heuristic analysis, as it does when the
  answer is not a dict with a \<open>content_type\<close> key.
\<close>

definition analyze_single_chunk ::
    "pylib \<Rightarrow> pystr \<Rightarrow> nat \<Rightarrow> prompt \<Rightarrow> provider \<Rightarrow> py_error + chunk_analysis" where
  "analyze_single_chunk lib chunk index prompt llm_provider =
     (let fallback = Inr (heuristic_analysis lib chunk index) in
      case llm_provider chunk (WithText prompt (take 2000 chunk)) of
        Inl e \<Rightarrow> fallback
      | Inr (PDict result) \<Rightarrow>
          (if map_of result (str ''content_type'') \<noteq> None then
             (case py_float lib (dict_get result (str ''relevance_score'') (PNum (Fin (1 / 2)))) of
                Inl e \<Rightarrow> fallback
              | Inr score \<Rightarrow>
                  (case py_int lib (dict_get result (str ''priority'') (PInt 3)) of
                     Inl e \<Rightarrow> fallback
                   | Inr prio \<Rightarrow>
                       Inr \<lparr> chunk_index = index,
                             content_type = dict_get result (str ''content_type'')
                               (PStr (str ''general'')),
                             relevance_score = score,
                             contains_specs = dict_get result (str ''contains_specs'') (PBool False),
                             contains_pricing =
                               dict_get result (str ''contains_pricing'') (PBool False),
                             contains_review = dict_get result (str ''contains_review'') (PBool False),
                             key_topics = dict_get result (str ''key_topics'') (PList []),
                             priority = prio \<rparr>))
           else fallback)
      | Inr v \<Rightarrow> fallback)"

definition default_analysis :: "nat \<Rightarrow> chunk_analysis" where
  "default_analysis index =
     \<lparr> chunk_index = index,
       content_type = PStr (str ''unknown''),
       relevance_score = Fin (1 / 2),
       contains_specs = PBool False,
       contains_pricing = PBool False,
       contains_review = PBool False,
       key_topics = PList [],
       priority = 3 \<rparr>"

text \<open>
  The futures complete in any order and the list is sorted by \<open>chunk_index\<close> at the end:
  the result is the list of the analyses in the order of the chunks.
\<close>

definition analyze_chunks_first_pass ::
    "pylib \<Rightarrow> pystr list \<Rightarrow> website_type \<Rightarrow> provider \<Rightarrow> pystr \<Rightarrow> chunk_analysis list" where
  "analyze_chunks_first_pass lib chunks website_type llm_provider query =
     (let analysis_prompt = create_analysis_prompt website_type query in
      map (\<lambda>ic. case analyze_single_chunk lib (snd ic) (fst ic) analysis_prompt llm_provider of
                  Inr analysis \<Rightarrow> analysis\<lparr>chunk_index := fst ic\<rparr>
                | Inl e \<Rightarrow> default_analysis (fst ic))
          (enumerate 0 chunks))"

section \<open>Pass 2: aggregation of the extraction results\<close>

definition then_ok :: "py_error + 'a \<Rightarrow> ('a \<Rightarrow> py_error + 'b) \<Rightarrow> py_error + 'b" where
  "then_ok r f = (case r of Inl e \<Rightarrow> Inl e | Inr x \<Rightarrow> f x)"

text \<open>
  The specs loop: a new key takes the value (by reference in Python, by value here: the
  results of separate provider calls share no object); a key already there is updated only
  when both values are dicts, by \<open>dict.update\<close>; otherwise the first value stays.
\<close>

definition merge_spec_item :: "pystr \<times> pyval \<Rightarrow> pydict \<Rightarrow> pydict" where
  "merge_spec_item kv specs =
     (case map_of specs (fst kv) of
        None \<Rightarrow> AList.update (fst kv) (snd kv) specs
      | Some old \<Rightarrow>
          (case (snd kv, old) of
             (PDict vd, PDict od) \<Rightarrow> AList.update (fst kv) (PDict (dict_update od vd)) specs
           | _ \<Rightarrow> specs))"

definition merge_specs :: "pydict list \<Rightarrow> pydict" where
  "merge_specs results = fold (\<lambda>result specs. fold merge_spec_item result specs) results []"

text \<open>\<open>if f in result: acc.extend(result[f])\<close> over the results.\<close>

fun extend_field :: "pystr \<Rightarrow> pydict list \<Rightarrow> py_error + pyval list" where
  "extend_field f [] = Inr []"
| "extend_field f (result # rest) =
     (case map_of result f of
        None \<Rightarrow> extend_field f rest
      | Some v \<Rightarrow>
          then_ok (py_iter v) (\<lambda>xs. then_ok (extend_field f rest) (\<lambda>ys. Inr (xs @ ys))))"

text \<open>\<open>if f in result: acc.append(result[f])\<close> over the results.\<close>

definition present_values :: "pystr \<Rightarrow> pydict list \<Rightarrow> pyval list" where
  "present_values f results = List.map_filter (\<lambda>result. map_of result f) results"

text \<open>\<open>" ".join(verdicts)\<close> raises \<open>TypeError\<close> on an item that is not a string.\<close>

fun str_values :: "pyval list \<Rightarrow> py_error + pystr list" where
  "str_values [] = Inr []"
| "str_values (PStr s # vs) = then_ok (str_values vs) (\<lambda>ss. Inr (s # ss))"
| "str_values (v # vs) = Inl TypeError"

definition add_specs :: "pydict list \<Rightarrow> pydict \<Rightarrow> py_error + pydict" where
  "add_specs results aggregated =
     Inr (AList.update (str ''caracteristiques_techniques'') (PDict (merge_specs results))
            aggregated)"

definition add_review :: "pydict list \<Rightarrow> pydict \<Rightarrow> py_error + pydict" where
  "add_review results aggregated =
     then_ok (extend_field (str ''points_forts'') results) (\<lambda>points_forts.
     then_ok (extend_field (str ''points_faibles'') results) (\<lambda>points_faibles.
     let notes = present_values (str ''note_globale'') results;
         verdicts = present_values (str ''verdict'') results
     in then_ok (list_set points_forts) (\<lambda>forts.
        then_ok (list_set points_faibles) (\<lambda>faibles.
        then_ok (if verdicts \<noteq> []
                 then then_ok (str_values verdicts) (\<lambda>ss. Inr (PStr (join (str '' '') ss)))
                 else Inr PNone) (\<lambda>verdict.
        Inr (dict_update aggregated
               [(str ''points_forts'', PList forts),
                (str ''points_faibles'', PList faibles),
                (str ''note_globale'', (case notes of [] \<Rightarrow> PNone | n # ns \<Rightarrow> n)),
                (str ''verdict'', verdict)]))))))"

definition add_pricing :: "pydict list \<Rightarrow> pydict \<Rightarrow> py_error + pydict" where
  "add_pricing results aggregated =
     (let prix = filter truthy (present_values (str ''prix_principal'') results) in
      then_ok (extend_field (str ''promotions'') results) (\<lambda>promotions.
      Inr (AList.update (str ''prix_et_disponibilite'')
             (PDict [(str ''prix'', PList prix), (str ''promotions'', PList promotions)])
             aggregated)))"

definition add_products :: "pydict list \<Rightarrow> pydict \<Rightarrow> py_error + pydict" where
  "add_products results aggregated =
     then_ok (extend_field (str ''produits'') results) (\<lambda>produits.
     Inr (AList.update (str ''produits'') (PList produits) aggregated))"

definition merge_general :: "pydict list \<Rightarrow> pydict" where
  "merge_general results = fold (\<lambda>result general_info. dict_update general_info result) results []"

definition add_general :: "pydict list \<Rightarrow> pydict \<Rightarrow> py_error + pydict" where
  "add_general results aggregated =
     (let general_info = merge_general results in
      if general_info \<noteq> []
      then Inr (AList.update (str ''informations_generales'') (PDict general_info) aggregated)
      else Inr aggregated)"

text \<open>
  \<open>extraction_results\<close> maps a content type to the list of the dicts extracted for it.
  \<open>if name in extraction_results\<close> then runs the block of that type.
\<close>

type_synonym extraction_results = "(pyval \<times> pydict list) list"

definition on_type ::
    "extraction_results \<Rightarrow> string \<Rightarrow> (pydict list \<Rightarrow> pydict \<Rightarrow> py_error + pydict) \<Rightarrow> pydict
       \<Rightarrow> py_error + pydict" where
  "on_type ex name block aggregated =
     (case map_of ex (PStr (str name)) of
        None \<Rightarrow> Inr aggregated
      | Some results \<Rightarrow> block results aggregated)"

definition aggregate_extraction_results ::
    "extraction_results \<Rightarrow> website_type \<Rightarrow> pystr \<Rightarrow> py_error + pydict" where
  "aggregate_extraction_results ex website_type original_query =
     then_ok (on_type ex ''specs'' add_specs []) (\<lambda>a1.
     then_ok (on_type ex ''review'' add_review a1) (\<lambda>a2.
     then_ok (on_type ex ''pricing'' add_pricing a2) (\<lambda>a3.
     then_ok (on_type ex ''product_list'' add_products a3) (\<lambda>a4.
     on_type ex ''general'' add_general a4))))"

section \<open>Pass 2: prioritised extraction\<close>

text \<open>
  \<open>sorted(analyses, key=lambda x: (x.priority, -x.relevance_score))\<close>: a stable sort on the
  pairs, compared first by priority and then by the negated score. When a score is NaN the
  order is the library's.
\<close>

definition sort_analyses :: "pylib \<Rightarrow> chunk_analysis list \<Rightarrow> chunk_analysis list" where
  "sort_analyses lib analyses =
     (if list_ex (\<lambda>x. relevance_score x = NaN) analyses then sorted_with_nan lib analyses
      else sort_key (\<lambda>x. (priority x, float_rank (fneg (relevance_score x)))) analyses)"

definition cap_analyses :: "int option \<Rightarrow> chunk_analysis list \<Rightarrow> chunk_analysis list" where
  "cap_analyses max_chunks sorted_analyses =
     (case max_chunks of
        None \<Rightarrow> sorted_analyses
      | Some m \<Rightarrow> if m \<noteq> 0 then slice_to sorted_analyses m else sorted_analyses)"

text \<open>
  \<open>chunks_by_type\<close>: the groups in the order in which their content type first occurs,
  each group in the order of the sorted analyses. An unhashable content type raises
  \<open>TypeError\<close> at the membership test, an index out of range \<open>IndexError\<close>.
\<close>

fun group_add :: "pyval \<Rightarrow> 'a \<Rightarrow> (pyval \<times> 'a list) list \<Rightarrow> (pyval \<times> 'a list) list" where
  "group_add k x [] = [(k, [x])]"
| "group_add k x ((k', xs) # groups) =
     (if py_eq k' k then (k', xs @ [x]) # groups else (k', xs) # group_add k x groups)"

definition group_step ::
    "pystr list \<Rightarrow> chunk_analysis \<Rightarrow> py_error + (pyval \<times> (pystr \<times> chunk_analysis) list) list
       \<Rightarrow> py_error + (pyval \<times> (pystr \<times> chunk_analysis) list) list" where
  "group_step chunks analysis acc =
     then_ok acc (\<lambda>chunks_by_type.
       if \<not> hashable (content_type analysis) then Inl TypeError
       else if chunk_index analysis < length chunks
         then Inr (group_add (content_type analysis) (chunks ! chunk_index analysis, analysis)
                     chunks_by_type)
       else Inl IndexError)"

definition group_chunks ::
    "pystr list \<Rightarrow> chunk_analysis list
       \<Rightarrow> py_error + (pyval \<times> (pystr \<times> chunk_analysis) list) list" where
  "group_chunks chunks sorted_analyses = fold (group_step chunks) sorted_analyses (Inr [])"

text \<open>One provider call per chunk of a group; a call that raises, or whose answer is not a
  dict, adds nothing.\<close>

definition extract_group ::
    "provider \<Rightarrow> prompt \<Rightarrow> (pystr \<times> chunk_analysis) list \<Rightarrow> pydict list" where
  "extract_group llm_provider specialized_prompt chunk_list =
     concat (map (\<lambda>ca. case llm_provider (fst ca) specialized_prompt of
                          Inr (PDict result) \<Rightarrow> [result]
                        | _ \<Rightarrow> [])
                 chunk_list)"

definition extract_groups ::
    "provider \<Rightarrow> website_type \<Rightarrow> pystr \<Rightarrow> (pyval \<times> (pystr \<times> chunk_analysis) list) list
       \<Rightarrow> extraction_results" where
  "extract_groups llm_provider website_type original_query chunks_by_type =
     filter (\<lambda>tr. snd tr \<noteq> [])
       (map (\<lambda>tc. (fst tc,
                   extract_group llm_provider
                     (create_specialized_extraction_prompt (fst tc) website_type original_query)
                     (snd tc)))
            chunks_by_type)"

definition extract_from_prioritized_chunks ::
    "pylib \<Rightarrow> pystr list \<Rightarrow> chunk_analysis list \<Rightarrow> website_type \<Rightarrow> pystr \<Rightarrow> provider
       \<Rightarrow> int option \<Rightarrow> py_error + pydict" where
  "extract_from_prioritized_chunks lib chunks analyses website_type original_query llm_provider
       max_chunks =
     (let sorted_analyses = cap_analyses max_chunks (sort_analyses lib analyses) in
      then_ok (group_chunks chunks sorted_analyses) (\<lambda>chunks_by_type.
      aggregate_extraction_results
        (extract_groups llm_provider website_type original_query chunks_by_type)
        website_type original_query))"

section \<open>The two-pass pipeline\<close>

definition enhanced_extract_data_from_chunks ::
    "pylib \<Rightarrow> pystr list \<Rightarrow> pystr \<Rightarrow> provider \<Rightarrow> pystr \<Rightarrow> int \<Rightarrow> int \<Rightarrow> py_error + pydict" where
  "enhanced_extract_data_from_chunks lib chunks query llm_provider url max_workers
       max_chunks_per_type =
     (let content_sample = join (str '' '') (take 3 chunks) in
      then_ok (detect_website_type lib url content_sample) (\<lambda>website_type.
      let analyses = analyze_chunks_first_pass lib chunks website_type llm_provider query in
      extract_from_prioritized_chunks lib chunks analyses website_type query llm_provider
        (Some (max_chunks_per_type * 4))))"

text \<open>The keys an aggregated mapping can have, and the content types the aggregation reads.\<close>

definition output_keys :: "pystr list" where
  "output_keys =
     [str ''caracteristiques_techniques'', str ''points_forts'', str ''points_faibles'',
      str ''note_globale'', str ''verdict'', str ''prix_et_disponibilite'', str ''produits'',
      str ''informations_generales'']"

definition known_types :: "pyval list" where
  "known_types =
     [PStr (str ''specs''), PStr (str ''review''), PStr (str ''pricing''),
      PStr (str ''product_list''), PStr (str ''general'')]"

section \<open>Reference definitions following the specification\<close>

text \<open>
  The heuristic classification as the specification words it, over vocabularies given from
  outside: a keyword hit is a keyword that occurs in the text; a chunk is \<open>specs\<close> if at
  least three spec keywords are present, else \<open>pricing\<close> if a currency symbol or a price
  keyword is present, else \<open>review\<close> if at least one review keyword is present, else
  \<open>general\<close>; the priority is 1 for specs and review, 2 for pricing, 3 for general; the
  relevance score is the minimum of 1 and the length over 1000 plus the weighted keyword
  bonuses, summed in double arithmetic. The specification fixes neither the vocabularies
  nor the weights nor the hit counts that earn a bonus: they are arguments here.
\<close>

definition keyword_count :: "pystr list \<Rightarrow> pystr \<Rightarrow> nat" where
  "keyword_count vocabulary txt = card {kw \<in> set vocabulary. sublist kw txt}"

definition keyword_present :: "pystr list \<Rightarrow> pystr \<Rightarrow> bool" where
  "keyword_present vocabulary txt = (\<exists>kw \<in> set vocabulary. sublist kw txt)"

definition spec_content_type :: "pystr list \<Rightarrow> pystr list \<Rightarrow> pystr list \<Rightarrow> pystr \<Rightarrow> string" where
  "spec_content_type spec_words price_words review_words txt =
     (if 3 \<le> keyword_count spec_words txt then ''specs''
      else if keyword_present price_words txt then ''pricing''
      else if 1 \<le> keyword_count review_words txt then ''review''
      else ''general'')"

definition spec_priority :: "string \<Rightarrow> int" where
  "spec_priority ctype =
     (if ctype = ''specs'' \<or> ctype = ''review'' then 1
      else if ctype = ''pricing'' then 2
      else 3)"

definition spec_relevance :: "rat \<Rightarrow> rat \<Rightarrow> rat \<Rightarrow> nat \<Rightarrow> bool \<Rightarrow> bool \<Rightarrow> bool \<Rightarrow> rat" where
  "spec_relevance w_specs w_pricing w_review len specs_bonus pricing_bonus review_bonus =
     min 1 (fl (fl (fl (fl (of_nat len / 1000) + (if specs_bonus then w_specs else 0))
                    + (if pricing_bonus then w_pricing else 0))
                + (if review_bonus then w_review else 0)))"

text \<open>Lowering a string never removes a euro sign: the sign has no case.\<close>

definition keeps_euro :: "pylib \<Rightarrow> bool" where
  "keeps_euro lib = (\<forall>s. euro \<in> set s \<longrightarrow> euro \<in> set (str_lower lib s))"

definition price_chunk :: pystr where
  "price_chunk = str ''prix: 999'' @ [euro] @ str '', promotion''"

section \<open>Reference definitions for pass 2\<close>

text \<open>
  The order of the specification: priority ascending and, within a priority, relevance
  score descending. \<open>float_le\<close> is \<open><=\<close> on floats, false as soon as NaN is compared. A
  list is the analyses in priority order when it is a rearrangement of them, sorted by this
  order, in which entries of equal priority and score keep their relative order.
\<close>

fun float_le :: "pyfloat \<Rightarrow> pyfloat \<Rightarrow> bool" where
  "float_le NaN y = False"
| "float_le x NaN = False"
| "float_le NegInf y = True"
| "float_le x PosInf = True"
| "float_le (Fin a) (Fin b) = (a \<le> b)"
| "float_le x y = False"

definition comes_before :: "chunk_analysis \<Rightarrow> chunk_analysis \<Rightarrow> bool" where
  "comes_before a b =
     (priority a < priority b
      \<or> (priority a = priority b \<and> float_le (relevance_score b) (relevance_score a)))"

definition priority_sorted :: "chunk_analysis list \<Rightarrow> chunk_analysis list \<Rightarrow> bool" where
  "priority_sorted analyses ordered =
     (mset ordered = mset analyses
      \<and> sorted_wrt comes_before ordered
      \<and> (\<forall>p r. filter (\<lambda>a. priority a = p \<and> relevance_score a = r) ordered
               = filter (\<lambda>a. priority a = p \<and> relevance_score a = r) analyses))"

text \<open>
  The entries that survive the cap: the first \<open>m\<close> for a positive maximum \<open>m\<close>, all of
  them when no maximum or the maximum 0 is given; a negative maximum drops that many entries
  from the end.
\<close>

definition spec_survivors :: "int option \<Rightarrow> chunk_analysis list \<Rightarrow> chunk_analysis list" where
  "spec_survivors max_chunks ordered =
     (case max_chunks of
        None \<Rightarrow> ordered
      | Some m \<Rightarrow>
          if 0 < m then take (nat m) ordered
          else if m = 0 then ordered
          else take (length ordered - nat (- m)) ordered)"

text \<open>
  What is extracted for a content type: the dicts that the provider returns for the
  surviving chunks of that type, taken in their order, a chunk whose call raises or returns
  something else being passed over.
\<close>

definition extracted_for ::
    "provider \<Rightarrow> website_type \<Rightarrow> pystr \<Rightarrow> pystr list \<Rightarrow> chunk_analysis list \<Rightarrow> pystr
       \<Rightarrow> pydict list" where
  "extracted_for llm_provider website_type query chunks survivors ctype =
     concat (map (\<lambda>a. case llm_provider (chunks ! chunk_index a)
                            (create_specialized_extraction_prompt (PStr ctype) website_type query) of
                       Inr (PDict d) \<Rightarrow> [d]
                     | _ \<Rightarrow> [])
                 (filter (\<lambda>a. content_type a = PStr ctype) survivors))"

definition grouped_results ::
    "provider \<Rightarrow> website_type \<Rightarrow> pystr \<Rightarrow> pystr list \<Rightarrow> chunk_analysis list
       \<Rightarrow> extraction_results \<Rightarrow> bool" where
  "grouped_results llm_provider website_type query chunks survivors ex =
     (\<forall>ctype. map_of ex (PStr ctype)
        = (if extracted_for llm_provider website_type query chunks survivors ctype = [] then None
           else Some (extracted_for llm_provider website_type query chunks survivors ctype)))"

fun is_str :: "pyval \<Rightarrow> bool" where
  "is_str (PStr s) = True"
| "is_str v = False"

definition analysis_ok :: "pystr list \<Rightarrow> chunk_analysis \<Rightarrow> bool" where
  "analysis_ok chunks a =
     (is_str (content_type a) \<and> chunk_index a < length chunks \<and> relevance_score a \<noteq> NaN)"

section \<open>Example inputs\<close>

definition unknown_and_general :: extraction_results where
  "unknown_and_general =
     [(PStr (str ''unknown''), [[(str ''a'', PInt 1)]]),
      (PStr (str ''general''), [[(str ''b'', PInt 2)]])]"

text \<open>Three chunks classified as general, and a provider that reports the chunk it is given.\<close>

definition three_chunks :: "pystr list" where
  "three_chunks = [str ''c0'', str ''c1'', str ''c2'']"

definition general_analysis :: "nat \<Rightarrow> int \<Rightarrow> rat \<Rightarrow> chunk_analysis" where
  "general_analysis index prio score =
     (default_analysis index)
       \<lparr>content_type := PStr (str ''general''), relevance_score := Fin score, priority := prio\<rparr>"

definition three_analyses :: "chunk_analysis list" where
  "three_analyses =
     [general_analysis 0 3 (9 / 10), general_analysis 1 1 (7 / 10), general_analysis 2 1 (1 / 2)]"

definition echo_provider :: provider where
  "echo_provider content instruction =
     Inr (PDict [(content, PBool True), (str ''last'', PStr content)])"

section \<open>Proved properties\<close>

subsection \<open>Basic facts\<close>

lemma then_ok_Inr: "then_ok r f = Inr y \<longleftrightarrow> (\<exists>x. r = Inr x \<and> f x = Inr y)"
  by (cases r) (simp_all add: then_ok_def)

lemma keys_dict_update: "fst ` set (dict_update d e) = fst ` set d \<union> fst ` set e"
  unfolding dict_update_def
  by (induction e arbitrary: d) (auto simp: dom_update)

subsection \<open>Keys of the aggregated mapping\<close>

lemma keys_add_specs:
  "add_specs rs agg = Inr out \<Longrightarrow> fst ` set out \<subseteq> fst ` set agg \<union> set output_keys"
proof -
  assume "add_specs rs agg = Inr out"
  then have "out = AList.update (str ''caracteristiques_techniques'') (PDict (merge_specs rs)) agg"
    by (simp add: add_specs_def)
  then have "fst ` set out = {str ''caracteristiques_techniques''} \<union> fst ` set agg"
    by (simp only: dom_update)
  then show ?thesis by (auto simp: output_keys_def)
qed

lemma keys_add_review:
  "add_review rs agg = Inr out \<Longrightarrow> fst ` set out \<subseteq> fst ` set agg \<union> set output_keys"
proof -
  assume "add_review rs agg = Inr out"
  then obtain a b c d where "out = dict_update agg
     [(str ''points_forts'', a), (str ''points_faibles'', b), (str ''note_globale'', c),
      (str ''verdict'', d)]"
    by (auto simp: add_review_def then_ok_Inr Let_def)
  then have "fst ` set out = fst ` set agg \<union> {str ''points_forts'', str ''points_faibles'',
      str ''note_globale'', str ''verdict''}"
    by (simp add: keys_dict_update)
  then show ?thesis by (auto simp: output_keys_def)
qed

lemma keys_add_pricing:
  "add_pricing rs agg = Inr out \<Longrightarrow> fst ` set out \<subseteq> fst ` set agg \<union> set output_keys"
proof -
  assume "add_pricing rs agg = Inr out"
  then obtain v where "out = AList.update (str ''prix_et_disponibilite'') v agg"
    by (auto simp: add_pricing_def then_ok_Inr Let_def)
  then have "fst ` set out = {str ''prix_et_disponibilite''} \<union> fst ` set agg"
    by (simp only: dom_update)
  then show ?thesis by (auto simp: output_keys_def)
qed

lemma keys_add_products:
  "add_products rs agg = Inr out \<Longrightarrow> fst ` set out \<subseteq> fst ` set agg \<union> set output_keys"
proof -
  assume "add_products rs agg = Inr out"
  then obtain v where "out = AList.update (str ''produits'') v agg"
    by (auto simp: add_products_def then_ok_Inr)
  then have "fst ` set out = {str ''produits''} \<union> fst ` set agg"
    by (simp only: dom_update)
  then show ?thesis by (auto simp: output_keys_def)
qed

lemma keys_add_general:
  "add_general rs agg = Inr out \<Longrightarrow> fst ` set out \<subseteq> fst ` set agg \<union> set output_keys"
proof -
  assume "add_general rs agg = Inr out"
  then consider
      "out = AList.update (str ''informations_generales'') (PDict (merge_general rs)) agg"
    | "out = agg"
    by (auto simp: add_general_def Let_def split: if_splits)
  then show ?thesis
  proof cases
    case 1
    then have "fst ` set out = {str ''informations_generales''} \<union> fst ` set agg"
      by (simp only: dom_update)
    then show ?thesis by (auto simp: output_keys_def)
  next
    case 2
    then show ?thesis by auto
  qed
qed

lemma keys_on_type:
  assumes "\<And>rs agg out. block rs agg = Inr out \<Longrightarrow> fst ` set out \<subseteq> fst ` set agg \<union> K"
    and "on_type ex name block agg = Inr out"
    and "fst ` set agg \<subseteq> K"
  shows "fst ` set out \<subseteq> K"
proof (cases "map_of ex (PStr (str name))")
  case None
  with assms(2,3) show ?thesis by (simp add: on_type_def)
next
  case (Some rs)
  with assms(2) have "block rs agg = Inr out" by (simp add: on_type_def)
  from assms(1) [OF this] assms(3) show ?thesis by blast
qed

lemma map_of_filter_fst:
  "P k \<Longrightarrow> map_of (filter (\<lambda>tr. P (fst tr)) ex) k = map_of ex k"
  by (induction ex) auto

lemma on_type_filter:
  "PStr (str name) \<in> set known_types \<Longrightarrow>
   on_type (filter (\<lambda>tr. fst tr \<in> set known_types) ex) name block = on_type ex name block"
  by (rule ext) (simp add: on_type_def map_of_filter_fst [where P = "\<lambda>k. k \<in> set known_types"])

text \<open>
  C10. Every mapping returned by the aggregation has its keys among the eight fixed keys,
  and the results grouped under a content type other than \<open>specs\<close>, \<open>review\<close>,
  \<open>pricing\<close>, \<open>product_list\<close> and \<open>general\<close> contribute nothing: removing them
  leaves the outcome of the aggregation unchanged.
\<close>

theorem aggregate_keys:
  "(\<forall>out. aggregate_extraction_results ex wt q = Inr out \<longrightarrow> fst ` set out \<subseteq> set output_keys)
   \<and> aggregate_extraction_results (filter (\<lambda>tr. fst tr \<in> set known_types) ex) wt q
       = aggregate_extraction_results ex wt q"
proof (intro conjI allI impI)
  fix out
  assume "aggregate_extraction_results ex wt q = Inr out"
  then obtain a1 a2 a3 a4 where
    s: "on_type ex ''specs'' add_specs [] = Inr a1"
       "on_type ex ''review'' add_review a1 = Inr a2"
       "on_type ex ''pricing'' add_pricing a2 = Inr a3"
       "on_type ex ''product_list'' add_products a3 = Inr a4"
       "on_type ex ''general'' add_general a4 = Inr out"
    unfolding aggregate_extraction_results_def then_ok_Inr by blast
  have k0: "fst ` set ([]::pydict) \<subseteq> set output_keys"
    by simp
  have k1: "fst ` set a1 \<subseteq> set output_keys"
    by (rule keys_on_type [OF _ s(1) k0]) (rule keys_add_specs)
  have k2: "fst ` set a2 \<subseteq> set output_keys"
    by (rule keys_on_type [OF _ s(2) k1]) (rule keys_add_review)
  have k3: "fst ` set a3 \<subseteq> set output_keys"
    by (rule keys_on_type [OF _ s(3) k2]) (rule keys_add_pricing)
  have k4: "fst ` set a4 \<subseteq> set output_keys"
    by (rule keys_on_type [OF _ s(4) k3]) (rule keys_add_products)
  show "fst ` set out \<subseteq> set output_keys"
    by (rule keys_on_type [OF _ s(5) k4]) (rule keys_add_general)
next
  show "aggregate_extraction_results (filter (\<lambda>tr. fst tr \<in> set known_types) ex) wt q
       = aggregate_extraction_results ex wt q"
  proof -
    have m: "PStr (str ''specs'') \<in> set known_types" "PStr (str ''review'') \<in> set known_types"
      "PStr (str ''pricing'') \<in> set known_types" "PStr (str ''product_list'') \<in> set known_types"
      "PStr (str ''general'') \<in> set known_types"
      by (simp_all add: known_types_def)
    show ?thesis
      unfolding aggregate_extraction_results_def
      by (simp only: on_type_filter [OF m(1)] on_type_filter [OF m(2)] on_type_filter [OF m(3)]
            on_type_filter [OF m(4)] on_type_filter [OF m(5)])
  qed
qed


theorem aggregate_keys_witness:
  "aggregate_extraction_results unknown_and_general GENERAL []
     = Inr [(str ''informations_generales'', PDict [(str ''b'', PInt 2)])]
   \<and> fst ` set [(str ''informations_generales'', PDict [(str ''b'', PInt 2)])] \<subseteq> set output_keys
   \<and> aggregate_extraction_results [(PStr (str ''general''), [[(str ''b'', PInt 2)]])] GENERAL []
     = Inr [(str ''informations_generales'', PDict [(str ''b'', PInt 2)])]"
proof -
  have e: "aggregate_extraction_results unknown_and_general GENERAL []
     = Inr [(str ''informations_generales'', PDict [(str ''b'', PInt 2)])]"
    by code_simp
  have f: "filter (\<lambda>tr. fst tr \<in> set known_types) unknown_and_general
     = [(PStr (str ''general''), [[(str ''b'', PInt 2)]])]"
    by code_simp
  from aggregate_keys [of unknown_and_general GENERAL "[]"] e f show ?thesis
    by simp
qed

text \<open>
  C5. The loop over the known domains tests the entries of each domain list against that
  same list, not the domain of the URL: the first type of the table, \<open>REVIEW\<close>, is returned
  for every URL that parses and every content. An \<open>amazon.fr\<close> URL is not classified as
  e-commerce, and an unknown domain with no indicator word is not classified as general.
\<close>

theorem detect_website_type_always_review:
  assumes "url_netloc lib url = Inr netloc"
  shows "detect_website_type lib url content = Inr REVIEW"
  using assms
  by (simp add: detect_website_type_def extract_domain_def website_patterns_def
      review_patterns_def Let_def)

theorem detect_website_type_always_review_witness:
  "url_netloc ascii_lib (str ''https://amazon.fr/dp/B0'') = Inr (str ''amazon.fr'')
   \<and> detect_website_type ascii_lib (str ''https://amazon.fr/dp/B0'') (str ''prix promotion'')
       = Inr REVIEW
   \<and> detect_website_type ascii_lib (str ''https://example.org/'') [] = Inr REVIEW"
proof -
  have a: "url_netloc ascii_lib (str ''https://amazon.fr/dp/B0'') = Inr (str ''amazon.fr'')"
    by code_simp
  have b: "url_netloc ascii_lib (str ''https://example.org/'') = Inr (str ''example.org'')"
    by code_simp
  from detect_website_type_always_review [OF a] detect_website_type_always_review [OF b] a
  show ?thesis by simp
qed

subsection \<open>The heuristic analysis\<close>

lemma str_in_sublist: "str_in kw s \<longleftrightarrow> sublist kw s"
  by (induction s) (simp_all add: sublist_Cons_right)

lemma keyword_hits_count:
  "distinct kws \<Longrightarrow> keyword_hits kws t = keyword_count kws t"
proof -
  assume "distinct kws"
  then have "length (filter (\<lambda>kw. sublist kw t) kws) = card {kw \<in> set kws. sublist kw t}"
    by (simp add: distinct_length_filter Int_def conj_commute)
  then show ?thesis
    by (simp add: keyword_hits_def keyword_count_def str_in_sublist)
qed

lemma keyword_tables_distinct:
  "distinct specs_keywords" "distinct review_keywords"
  by code_simp+

lemma list_ex_present: "list_ex (\<lambda>kw. str_in kw t) kws \<longleftrightarrow> keyword_present kws t"
  by (simp add: list_ex_iff keyword_present_def str_in_sublist)

lemma re_spaces_euro_mem: "re_spaces_euro lib s \<Longrightarrow> euro \<in> set s"
  by (induction s) auto

lemma re_digits_euro_mem: "re_digits_euro lib s \<Longrightarrow> euro \<in> set s"
  by (induction s) (auto dest: re_spaces_euro_mem)

lemma re_price_search_mem: "re_price_search lib s \<Longrightarrow> euro \<in> set s"
proof (induction s)
  case Nil
  then show ?case by simp
next
  case (Cons c cs)
  from Cons.prems have "re_digits_euro lib (c # cs) \<or> re_price_search lib cs"
    by simp
  then show ?case
  proof
    assume "re_digits_euro lib (c # cs)"
    then show ?thesis by (rule re_digits_euro_mem)
  next
    assume "re_price_search lib cs"
    then have "euro \<in> set cs" by (rule Cons.IH)
    then show ?thesis by simp
  qed
qed

lemma sublist_single: "sublist [c] s \<longleftrightarrow> c \<in> set s"
  by (induction s) (auto simp: sublist_Cons_right)

lemma euro_is_price_keyword: "[euro] \<in> set pricing_keywords"
  by (simp add: pricing_keywords_def)

lemma has_pricing_spec:
  assumes "keeps_euro lib"
  shows "(list_ex (\<lambda>kw. str_in kw (str_lower lib chunk)) pricing_keywords
            \<or> re_price_search lib chunk)
         \<longleftrightarrow> keyword_present pricing_keywords (str_lower lib chunk)"
proof -
  have "keyword_present pricing_keywords (str_lower lib chunk)" if "re_price_search lib chunk"
  proof -
    from that have "euro \<in> set chunk" by (rule re_price_search_mem)
    with assms have "euro \<in> set (str_lower lib chunk)" by (simp add: keeps_euro_def)
    then have "sublist [euro] (str_lower lib chunk)" by (simp add: sublist_single)
    with euro_is_price_keyword show ?thesis unfolding keyword_present_def by blast
  qed
  then show ?thesis by (auto simp: list_ex_present)
qed

lemma round_half_even_nonneg: "0 \<le> x \<Longrightarrow> 0 \<le> round_half_even x"
  by (simp add: round_half_even_def Let_def)

lemma pow2_pos: "0 < pow2 e"
  by (simp add: pow2_def)

lemma fl_nonneg: "0 \<le> x \<Longrightarrow> 0 \<le> fl x"
proof -
  assume x: "0 \<le> x"
  show ?thesis
  proof (cases "x = 0")
    case True
    then show ?thesis by (simp add: fl_def)
  next
    case False
    define e where "e = float_exponent \<bar>x\<bar> - 52"
    have "0 \<le> \<bar>x\<bar> / pow2 e" using pow2_pos [of e] by simp
    then have "0 \<le> round_half_even (\<bar>x\<bar> / pow2 e)" by (rule round_half_even_nonneg)
    then have "0 \<le> sgn x * of_int (round_half_even (\<bar>x\<bar> / pow2 e)) * pow2 e"
      using x pow2_pos [of e] by (simp add: sgn_if)
    then show ?thesis using False by (simp add: fl_def Let_def e_def)
  qed
qed

lemma spec_relevance_range:
  "0 \<le> spec_relevance ws wp wr len s p r \<and> spec_relevance ws wp wr len s p r \<le> 1"
  if "0 \<le> ws" "0 \<le> wp" "0 \<le> wr"
proof -
  have a: "0 \<le> fl (of_nat len / 1000)" by (rule fl_nonneg) simp
  have b: "0 \<le> fl (fl (of_nat len / 1000) + (if s then ws else 0))"
    using a that by (intro fl_nonneg) simp
  have c: "0 \<le> fl (fl (fl (of_nat len / 1000) + (if s then ws else 0)) + (if p then wp else 0))"
    using b that by (intro fl_nonneg) simp
  have "0 \<le> fl (fl (fl (fl (of_nat len / 1000) + (if s then ws else 0)) + (if p then wp else 0))
      + (if r then wr else 0))"
    using c that by (intro fl_nonneg) simp
  then show ?thesis by (simp add: spec_relevance_def)
qed

lemma weights_nonneg: "0 \<le> fl (3 / 10)" "0 \<le> fl (2 / 10)"
  by (rule fl_nonneg, simp)+

lemma label_names:
  "str ''specs'' \<noteq> str ''pricing''" "str ''specs'' \<noteq> str ''review''"
  "str ''pricing'' \<noteq> str ''review''" "str ''pricing'' \<noteq> str ''specs''"
  "str ''general'' \<noteq> str ''specs''" "str ''general'' \<noteq> str ''review''"
  "str ''general'' \<noteq> str ''pricing''" "str ''review'' \<noteq> str ''specs''"
  by (simp_all add: str_def)

lemma heuristic_fields:
  assumes "keeps_euro lib"
  shows "content_type (heuristic_analysis lib chunk i)
           = PStr (str (spec_content_type specs_keywords pricing_keywords review_keywords (str_lower lib chunk)))"
    and "priority (heuristic_analysis lib chunk i)
           = spec_priority (spec_content_type specs_keywords pricing_keywords review_keywords (str_lower lib chunk))"
    and "relevance_score (heuristic_analysis lib chunk i)
           = Fin (spec_relevance (fl (3 / 10)) (fl (2 / 10)) (fl (3 / 10)) (length chunk)
                    (2 \<le> keyword_count specs_keywords (str_lower lib chunk))
                    (keyword_present pricing_keywords (str_lower lib chunk))
                    (1 \<le> keyword_count review_keywords (str_lower lib chunk)))"
    and "contains_specs (heuristic_analysis lib chunk i) = PBool (2 \<le> keyword_count specs_keywords (str_lower lib chunk))"
    and "contains_pricing (heuristic_analysis lib chunk i) = PBool (keyword_present pricing_keywords (str_lower lib chunk))"
    and "contains_review (heuristic_analysis lib chunk i) = PBool (1 \<le> keyword_count review_keywords (str_lower lib chunk))"
  by (simp_all add: heuristic_analysis_def spec_content_type_def spec_priority_def
      spec_relevance_def Let_def bonus_def fadd_def has_pricing_spec [OF assms(1)]
      keyword_hits_count keyword_tables_distinct)

lemma keeps_euro_ascii: "keeps_euro ascii_lib"
proof -
  have "lower_cp euro = euro" by (simp add: lower_cp_def euro_def)
  then have "euro \<in> set s \<Longrightarrow> euro \<in> set (map lower_cp s)" for s
    by (metis image_eqI list.set_map)
  then show ?thesis by (simp add: keeps_euro_def ascii_lib_def)
qed

lemma price_chunk_has_euro: "sublist [euro] price_chunk"
  by (simp add: sublist_single price_chunk_def)

lemma price_chunk_spec_words: "keyword_count specs_keywords price_chunk = 0"
proof -
  have "keyword_hits specs_keywords price_chunk = 0" by code_simp
  then show ?thesis by (simp add: keyword_hits_count keyword_tables_distinct)
qed

text \<open>
  C2. The heuristic fallback is a function of the chunk text alone (it takes no provider)
  and equals the reference definition of the specification, read with the keyword tables and
  the weights of the code: the content type, the priority, the three flags and the
  relevance score, which is a double between 0 and 1. A chunk whose lowered text contains
  \<open>prix: 999EUR, promotion\<close> (with the euro sign) has the pricing flag set and, unless it
  holds three spec keywords, is classified as pricing with priority 2; so is the chunk made
  of that text alone.
\<close>

theorem heuristic_analysis_refines_spec:
  assumes "keeps_euro lib"
  shows "content_type (heuristic_analysis lib chunk i)
         = PStr (str (spec_content_type specs_keywords pricing_keywords review_keywords
                        (str_lower lib chunk)))
     \<and> priority (heuristic_analysis lib chunk i)
         = spec_priority (spec_content_type specs_keywords pricing_keywords review_keywords
                            (str_lower lib chunk))
     \<and> relevance_score (heuristic_analysis lib chunk i)
         = Fin (spec_relevance (fl (3 / 10)) (fl (2 / 10)) (fl (3 / 10)) (length chunk)
                  (2 \<le> keyword_count specs_keywords (str_lower lib chunk))
                  (keyword_present pricing_keywords (str_lower lib chunk))
                  (1 \<le> keyword_count review_keywords (str_lower lib chunk)))
     \<and> (\<exists>score. relevance_score (heuristic_analysis lib chunk i) = Fin score
                 \<and> 0 \<le> score \<and> score \<le> 1)
     \<and> contains_specs (heuristic_analysis lib chunk i)
         = PBool (2 \<le> keyword_count specs_keywords (str_lower lib chunk))
     \<and> contains_pricing (heuristic_analysis lib chunk i)
         = PBool (keyword_present pricing_keywords (str_lower lib chunk))
     \<and> contains_review (heuristic_analysis lib chunk i)
         = PBool (1 \<le> keyword_count review_keywords (str_lower lib chunk))
     \<and> (sublist price_chunk (str_lower lib chunk) \<longrightarrow>
           contains_pricing (heuristic_analysis lib chunk i) = PBool True
           \<and> (keyword_count specs_keywords (str_lower lib chunk) < 3 \<longrightarrow>
                content_type (heuristic_analysis lib chunk i) = PStr (str ''pricing'')
                \<and> priority (heuristic_analysis lib chunk i) = 2))
     \<and> (str_lower lib price_chunk = price_chunk \<longrightarrow>
           content_type (heuristic_analysis lib price_chunk i) = PStr (str ''pricing'')
           \<and> priority (heuristic_analysis lib price_chunk i) = 2
           \<and> contains_pricing (heuristic_analysis lib price_chunk i) = PBool True)"
proof -
  note f = heuristic_fields [OF assms]
  have range: "\<exists>score. relevance_score (heuristic_analysis lib chunk i) = Fin score
      \<and> 0 \<le> score \<and> score \<le> 1"
    using spec_relevance_range [OF weights_nonneg(1) weights_nonneg(2) weights_nonneg(1)]
    unfolding f(3) by blast
  have containing:
    "contains_pricing (heuristic_analysis lib c i) = PBool True
     \<and> (keyword_count specs_keywords (str_lower lib c) < 3 \<longrightarrow>
          content_type (heuristic_analysis lib c i) = PStr (str ''pricing'')
          \<and> priority (heuristic_analysis lib c i) = 2)"
    if sub: "sublist price_chunk (str_lower lib c)" for c
  proof -
    from price_chunk_has_euro sub have "sublist [euro] (str_lower lib c)"
      by (rule sublist_order.order_trans)
    with euro_is_price_keyword have present: "keyword_present pricing_keywords (str_lower lib c)"
      unfolding keyword_present_def by blast
    then show ?thesis
      by (simp add: f(1) f(2) f(5) spec_content_type_def spec_priority_def)
  qed
  have alone:
    "content_type (heuristic_analysis lib price_chunk i) = PStr (str ''pricing'')
     \<and> priority (heuristic_analysis lib price_chunk i) = 2
     \<and> contains_pricing (heuristic_analysis lib price_chunk i) = PBool True"
    if low: "str_lower lib price_chunk = price_chunk"
  proof -
    have "sublist price_chunk (str_lower lib price_chunk)" by (simp add: low)
    from containing [OF this] show ?thesis by (simp add: low price_chunk_spec_words)
  qed
  from f(1) f(2) f(3) range f(4) f(5) f(6) containing [of chunk] alone show ?thesis
    by blast
qed

theorem heuristic_analysis_refines_spec_witness:
  "keeps_euro ascii_lib
   \<and> content_type (heuristic_analysis ascii_lib price_chunk 0) = PStr (str ''pricing'')
   \<and> priority (heuristic_analysis ascii_lib price_chunk 0) = 2
   \<and> contains_pricing (heuristic_analysis ascii_lib price_chunk 0) = PBool True
   \<and> relevance_score (heuristic_analysis ascii_lib price_chunk 0)
       = Fin (7962364141191037 / 36028797018963968)
   \<and> heuristic_analysis ascii_lib (str ''cpu ram ghz'') 1
       = \<lparr> chunk_index = 1, content_type = PStr [115, 112, 101, 99, 115],
           relevance_score = Fin (5602477936448897 / 18014398509481984),
           contains_specs = PBool True, contains_pricing = PBool False,
           contains_review = PBool False, key_topics = PList [], priority = 1 \<rparr>
   \<and> heuristic_analysis ascii_lib (str ''un avis'') 2
       = \<lparr> chunk_index = 2, content_type = PStr [114, 101, 118, 105, 101, 119],
           relevance_score = Fin (5530420342410969 / 18014398509481984),
           contains_specs = PBool False, contains_pricing = PBool False,
           contains_review = PBool True, key_topics = PList [], priority = 1 \<rparr>
   \<and> heuristic_analysis ascii_lib (str ''bonjour'') 3
       = \<lparr> chunk_index = 3, content_type = PStr [103, 101, 110, 101, 114, 97, 108],
           relevance_score = Fin (8070450532247929 / 1152921504606846976),
           contains_specs = PBool False, contains_pricing = PBool False,
           contains_review = PBool False, key_topics = PList [], priority = 3 \<rparr>
   \<and> heuristic_analysis ascii_lib (str ''cpu ram'') 4
       = \<lparr> chunk_index = 4, content_type = PStr [103, 101, 110, 101, 114, 97, 108],
           relevance_score = Fin (5530420342410969 / 18014398509481984),
           contains_specs = PBool True, contains_pricing = PBool False,
           contains_review = PBool False, key_topics = PList [], priority = 3 \<rparr>
   \<and> heuristic_analysis ascii_lib (str ''PRIX'') 5
       = \<lparr> chunk_index = 5, content_type = PStr [112, 114, 105, 99, 105, 110, 103],
           relevance_score = Fin (3674937295934325 / 18014398509481984),
           contains_specs = PBool False, contains_pricing = PBool True,
           contains_review = PBool False, key_topics = PList [], priority = 2 \<rparr>
   \<and> heuristic_analysis ascii_lib (str ''cpu ram ghz prix avis'') 6
       = \<lparr> chunk_index = 6, content_type = PStr [115, 112, 101, 99, 115],
           relevance_score = Fin (3697455294071177 / 4503599627370496),
           contains_specs = PBool True, contains_pricing = PBool True,
           contains_review = PBool True, key_topics = PList [], priority = 1 \<rparr>"
proof -
  have low: "str_lower ascii_lib price_chunk = price_chunk"
    by code_simp
  have score: "relevance_score (heuristic_analysis ascii_lib price_chunk 0)
      = Fin (7962364141191037 / 36028797018963968)"
    by code_simp
  have e1: "heuristic_analysis ascii_lib (str ''cpu ram ghz'') 1
       = \<lparr> chunk_index = 1, content_type = PStr [115, 112, 101, 99, 115],
           relevance_score = Fin (5602477936448897 / 18014398509481984),
           contains_specs = PBool True, contains_pricing = PBool False,
           contains_review = PBool False, key_topics = PList [], priority = 1 \<rparr>"
    by code_simp
  have e2: "heuristic_analysis ascii_lib (str ''un avis'') 2
       = \<lparr> chunk_index = 2, content_type = PStr [114, 101, 118, 105, 101, 119],
           relevance_score = Fin (5530420342410969 / 18014398509481984),
           contains_specs = PBool False, contains_pricing = PBool False,
           contains_review = PBool True, key_topics = PList [], priority = 1 \<rparr>"
    by code_simp
  have e3: "heuristic_analysis ascii_lib (str ''bonjour'') 3
       = \<lparr> chunk_index = 3, content_type = PStr [103, 101, 110, 101, 114, 97, 108],
           relevance_score = Fin (8070450532247929 / 1152921504606846976),
           contains_specs = PBool False, contains_pricing = PBool False,
           contains_review = PBool False, key_topics = PList [], priority = 3 \<rparr>"
    by code_simp
  have e4: "heuristic_analysis ascii_lib (str ''cpu ram'') 4
       = \<lparr> chunk_index = 4, content_type = PStr [103, 101, 110, 101, 114, 97, 108],
           relevance_score = Fin (5530420342410969 / 18014398509481984),
           contains_specs = PBool True, contains_pricing = PBool False,
           contains_review = PBool False, key_topics = PList [], priority = 3 \<rparr>"
    by code_simp
  have e5: "heuristic_analysis ascii_lib (str ''PRIX'') 5
       = \<lparr> chunk_index = 5, content_type = PStr [112, 114, 105, 99, 105, 110, 103],
           relevance_score = Fin (3674937295934325 / 18014398509481984),
           contains_specs = PBool False, contains_pricing = PBool True,
           contains_review = PBool False, key_topics = PList [], priority = 2 \<rparr>"
    by code_simp
  have e6: "heuristic_analysis ascii_lib (str ''cpu ram ghz prix avis'') 6
       = \<lparr> chunk_index = 6, content_type = PStr [115, 112, 101, 99, 115],
           relevance_score = Fin (3697455294071177 / 4503599627370496),
           contains_specs = PBool True, contains_pricing = PBool True,
           contains_review = PBool True, key_topics = PList [], priority = 1 \<rparr>"
    by code_simp
  from heuristic_analysis_refines_spec [OF keeps_euro_ascii, of price_chunk 0] low have
    "content_type (heuristic_analysis ascii_lib price_chunk 0) = PStr (str ''pricing'')
     \<and> priority (heuristic_analysis ascii_lib price_chunk 0) = 2
     \<and> contains_pricing (heuristic_analysis ascii_lib price_chunk 0) = PBool True"
    by blast
  with keeps_euro_ascii score e1 e2 e3 e4 e5 e6 show ?thesis
    by blast
qed

subsection \<open>Sorting the analyses\<close>

lemma float_rank_le:
  "x \<noteq> NaN \<Longrightarrow> y \<noteq> NaN \<Longrightarrow>
   float_rank (fneg x) \<le> float_rank (fneg y) \<longleftrightarrow> float_le y x"
  by (cases x; cases y) (auto simp: less_eq_prod_def)

lemma float_rank_inj: "float_rank (fneg x) = float_rank (fneg y) \<longleftrightarrow> x = y"
  by (cases x; cases y) auto

lemma sort_key_le:
  assumes "relevance_score a \<noteq> NaN" "relevance_score b \<noteq> NaN"
  shows "(priority a, float_rank (fneg (relevance_score a)))
           \<le> (priority b, float_rank (fneg (relevance_score b)))
         \<longleftrightarrow> comes_before a b"
proof -
  have "(priority a, float_rank (fneg (relevance_score a)))
           \<le> (priority b, float_rank (fneg (relevance_score b)))
      \<longleftrightarrow> priority a < priority b
          \<or> (priority a \<le> priority b
              \<and> float_rank (fneg (relevance_score a)) \<le> float_rank (fneg (relevance_score b)))"
    by (simp add: less_eq_prod_def)
  also have "\<dots> \<longleftrightarrow> comes_before a b"
    unfolding comes_before_def float_rank_le [OF assms] by auto
  finally show ?thesis .
qed

lemma sort_key_eq:
  "(priority a, float_rank (fneg (relevance_score a)))
     = (priority b, float_rank (fneg (relevance_score b)))
   \<longleftrightarrow> priority a = priority b \<and> relevance_score a = relevance_score b"
  by (simp add: float_rank_inj)

lemma sorted_by_key_iff:
  assumes "\<forall>a \<in> set xs. relevance_score a \<noteq> NaN"
  shows "sorted (map (\<lambda>x. (priority x, float_rank (fneg (relevance_score x)))) xs)
         \<longleftrightarrow> sorted_wrt comes_before xs"
proof -
  have "sorted (map (\<lambda>x. (priority x, float_rank (fneg (relevance_score x)))) xs)
      \<longleftrightarrow> sorted_wrt (\<lambda>a b. (priority a, float_rank (fneg (relevance_score a)))
                              \<le> (priority b, float_rank (fneg (relevance_score b)))) xs"
    by (simp add: sorted_map)
  also have "\<dots> \<longleftrightarrow> sorted_wrt comes_before xs"
  proof
    assume "sorted_wrt (\<lambda>a b. (priority a, float_rank (fneg (relevance_score a)))
                              \<le> (priority b, float_rank (fneg (relevance_score b)))) xs"
    then show "sorted_wrt comes_before xs"
      by (rule sorted_wrt_mono_rel [rotated]) (use assms sort_key_le in blast)
  next
    assume "sorted_wrt comes_before xs"
    then show "sorted_wrt (\<lambda>a b. (priority a, float_rank (fneg (relevance_score a)))
                              \<le> (priority b, float_rank (fneg (relevance_score b)))) xs"
      by (rule sorted_wrt_mono_rel [rotated]) (use assms sort_key_le in blast)
  qed
  finally show ?thesis .
qed

lemma no_nan_sort:
  assumes "list_all (\<lambda>a. relevance_score a \<noteq> NaN) analyses"
  shows "sort_analyses lib analyses
         = sort_key (\<lambda>x. (priority x, float_rank (fneg (relevance_score x)))) analyses"
  using assms by (simp add: sort_analyses_def list_ex_iff list_all_iff)

lemma sort_analyses_sorted:
  assumes "list_all (\<lambda>a. relevance_score a \<noteq> NaN) analyses"
  shows "priority_sorted analyses (sort_analyses lib analyses)"
proof -
  let ?f = "\<lambda>x. (priority x, float_rank (fneg (relevance_score x)))"
  have s: "sort_analyses lib analyses = sort_key ?f analyses"
    by (rule no_nan_sort [OF assms])
  have nn: "\<forall>a \<in> set (sort_key ?f analyses). relevance_score a \<noteq> NaN"
    using assms by (simp add: list_all_iff)
  have "sorted (map ?f (sort_key ?f analyses))" by simp
  then have a: "sorted_wrt comes_before (sort_key ?f analyses)"
    by (simp only: sorted_by_key_iff [OF nn])
  have b: "filter (\<lambda>a. priority a = p \<and> relevance_score a = r) (sort_key ?f analyses)
      = filter (\<lambda>a. priority a = p \<and> relevance_score a = r) analyses" for p r
  proof -
    have "filter (\<lambda>a. ?f a = (p, float_rank (fneg r))) (sort_key ?f analyses)
        = filter (\<lambda>a. ?f a = (p, float_rank (fneg r))) analyses"
      by (rule sort_key_stable)
    then show ?thesis by (simp add: float_rank_inj)
  qed
  show ?thesis
    unfolding priority_sorted_def s using a b by simp
qed

lemma priority_sorted_unique:
  assumes "list_all (\<lambda>a. relevance_score a \<noteq> NaN) analyses"
    and "priority_sorted analyses ordered"
  shows "ordered = sort_analyses lib analyses"
proof -
  let ?f = "\<lambda>x. (priority x, float_rank (fneg (relevance_score x)))"
  from assms(2) have m: "mset ordered = mset analyses"
    and w: "sorted_wrt comes_before ordered"
    and st: "\<And>p r. filter (\<lambda>a. priority a = p \<and> relevance_score a = r) ordered
               = filter (\<lambda>a. priority a = p \<and> relevance_score a = r) analyses"
    by (simp_all add: priority_sorted_def)
  from m have "set ordered = set analyses" by (rule mset_eq_setD)
  with assms(1) have nn: "\<forall>a \<in> set ordered. relevance_score a \<noteq> NaN"
    by (simp add: list_all_iff)
  have sorted: "sorted (map ?f ordered)"
    using w by (simp only: sorted_by_key_iff [OF nn])
  have stable: "filter (\<lambda>x. ?f k = ?f x) ordered = filter (\<lambda>x. ?f k = ?f x) analyses" for k
    using st [of "priority k" "relevance_score k"]
    by (simp add: float_rank_inj eq_commute)
  have "sort_key ?f analyses = ordered"
    by (rule properties_for_sort_key [OF m _ sorted]) (rule stable)
  then show ?thesis by (simp add: no_nan_sort [OF assms(1)])
qed

lemma cap_is_spec: "cap_analyses max_chunks xs = spec_survivors max_chunks xs"
  by (auto simp: cap_analyses_def spec_survivors_def slice_to_def split: option.splits)

lemma survivors_subset: "set (spec_survivors max_chunks xs) \<subseteq> set xs"
  by (auto simp: spec_survivors_def split: option.splits dest: in_set_takeD)

subsection \<open>Grouping the survivors and extracting\<close>

lemma py_eq_str: "is_str a \<Longrightarrow> py_eq a b \<longleftrightarrow> a = b"
  by (cases a; cases b) (auto simp: py_eq_def)

lemma is_str_hashable: "is_str v \<Longrightarrow> hashable v"
  by (cases v) simp_all

lemma group_add_strings:
  assumes "list_all (\<lambda>p. is_str (fst p)) g"
  shows "map_of (group_add k x g)
           = (map_of g)(k \<mapsto> (case map_of g k of None \<Rightarrow> [x] | Some xs \<Rightarrow> xs @ [x]))
         \<and> fst ` set (group_add k x g) = insert k (fst ` set g)
         \<and> (distinct (map fst g) \<longrightarrow> distinct (map fst (group_add k x g)))"
  using assms
proof (induction g)
  case Nil
  then show ?case by simp
next
  case (Cons q g)
  obtain k' xs where q: "q = (k', xs)" by (cases q)
  from Cons.prems q have s: "is_str k'" and rest: "list_all (\<lambda>p. is_str (fst p)) g"
    by simp_all
  note ih = Cons.IH [OF rest]
  show ?case
  proof (cases "k' = k")
    case True
    then show ?thesis using q s by (auto simp: py_eq_str)
  next
    case False
    then have "group_add k x (q # g) = q # group_add k x g"
      using q s by (simp add: py_eq_str)
    then show ?thesis using ih False q by (auto simp: fun_upd_twist)
  qed
qed

lemma group_fold_strings:
  assumes "list_all (\<lambda>a. is_str (content_type a) \<and> chunk_index a < length chunks) ys"
    and "list_all (\<lambda>p. is_str (fst p)) g" "distinct (map fst g)"
    and "\<And>k. map_of g k
           = (if filter (\<lambda>a. content_type a = k) xs = [] then None
              else Some (map (\<lambda>a. (chunks ! chunk_index a, a)) (filter (\<lambda>a. content_type a = k) xs)))"
  shows "\<exists>g'. fold (group_step chunks) ys (Inr g) = Inr g'
     \<and> distinct (map fst g')
     \<and> (\<forall>k. map_of g' k
           = (if filter (\<lambda>a. content_type a = k) (xs @ ys) = [] then None
              else Some (map (\<lambda>a. (chunks ! chunk_index a, a))
                           (filter (\<lambda>a. content_type a = k) (xs @ ys)))))"
  using assms
proof (induction ys arbitrary: g xs)
  case Nil
  then show ?case by simp
next
  case (Cons a ys)
  let ?g1 = "group_add (content_type a) (chunks ! chunk_index a, a) g"
  from Cons.prems(1) have a: "is_str (content_type a)" "chunk_index a < length chunks"
    and ys: "list_all (\<lambda>a. is_str (content_type a) \<and> chunk_index a < length chunks) ys"
    by simp_all
  from a have step: "group_step chunks a (Inr g) = Inr ?g1"
    by (simp add: group_step_def then_ok_def is_str_hashable)
  note ga = group_add_strings [OF Cons.prems(2), of "content_type a" "(chunks ! chunk_index a, a)"]
  have s1: "list_all (\<lambda>p. is_str (fst p)) ?g1"
  proof -
    from ga have keys: "fst ` set ?g1 = insert (content_type a) (fst ` set g)" by blast
    have "is_str (fst p)" if "p \<in> set ?g1" for p
    proof -
      from that have "fst p \<in> fst ` set ?g1" by (rule imageI)
      then have "fst p = content_type a \<or> fst p \<in> fst ` set g" by (simp only: keys insert_iff)
      with a(1) Cons.prems(2) show ?thesis by (auto simp: list_all_iff)
    qed
    then show ?thesis by (simp add: list_all_iff)
  qed
  have d1: "distinct (map fst ?g1)"
    using ga Cons.prems(3) by blast
  have m1: "map_of ?g1 k
      = (if filter (\<lambda>a. content_type a = k) (xs @ [a]) = [] then None
         else Some (map (\<lambda>a. (chunks ! chunk_index a, a))
                      (filter (\<lambda>a. content_type a = k) (xs @ [a]))))" for k
  proof -
    from ga have "map_of ?g1 = (map_of g)(content_type a \<mapsto>
        (case map_of g (content_type a) of None \<Rightarrow> [(chunks ! chunk_index a, a)]
         | Some xs \<Rightarrow> xs @ [(chunks ! chunk_index a, a)]))"
      by blast
    then show ?thesis
      by (simp add: Cons.prems(4))
  qed
  from Cons.IH [OF ys s1 d1 m1] obtain g' where
    "fold (group_step chunks) ys (Inr ?g1) = Inr g'" "distinct (map fst g')"
    "\<forall>k. map_of g' k
       = (if filter (\<lambda>a. content_type a = k) ((xs @ [a]) @ ys) = [] then None
          else Some (map (\<lambda>a. (chunks ! chunk_index a, a))
                       (filter (\<lambda>a. content_type a = k) ((xs @ [a]) @ ys))))"
    by blast
  with step show ?case by simp
qed

lemma group_chunks_strings:
  assumes "list_all (\<lambda>a. is_str (content_type a) \<and> chunk_index a < length chunks) xs"
  shows "\<exists>g. group_chunks chunks xs = Inr g
     \<and> distinct (map fst g)
     \<and> (\<forall>k. map_of g k
           = (if filter (\<lambda>a. content_type a = k) xs = [] then None
              else Some (map (\<lambda>a. (chunks ! chunk_index a, a))
                           (filter (\<lambda>a. content_type a = k) xs))))"
proof -
  have "list_all (\<lambda>p. is_str (fst p)) ([] :: (pyval \<times> (pystr \<times> chunk_analysis) list) list)"
    "distinct (map fst ([] :: (pyval \<times> (pystr \<times> chunk_analysis) list) list))"
    by simp_all
  from group_fold_strings [OF assms this, of "[]"] show ?thesis
    unfolding group_chunks_def append_Nil by simp
qed

lemma map_of_extract_groups:
  assumes "distinct (map fst g)"
  shows "map_of (extract_groups llm_provider wt q g) k
     = (case map_of g k of
          None \<Rightarrow> None
        | Some items \<Rightarrow>
            if extract_group llm_provider (create_specialized_extraction_prompt k wt q) items = []
            then None
            else Some (extract_group llm_provider (create_specialized_extraction_prompt k wt q) items))"
  using assms
proof (induction g)
  case Nil
  then show ?case by (simp add: extract_groups_def)
next
  case (Cons p g)
  from Cons.prems have fresh: "map_of g (fst p) = None" and d: "distinct (map fst g)"
    by (simp_all add: map_of_eq_None_iff)
  from Cons.IH [OF d] have ih: "map_of (extract_groups llm_provider wt q g) k
     = (case map_of g k of
          None \<Rightarrow> None
        | Some items \<Rightarrow>
            if extract_group llm_provider (create_specialized_extraction_prompt k wt q) items = []
            then None
            else Some (extract_group llm_provider (create_specialized_extraction_prompt k wt q) items))" .
  show ?case
  proof (cases "fst p = k")
    case True
    with fresh have "map_of g k = None" by simp
    with ih have "map_of (extract_groups llm_provider wt q g) k = None" by simp
    then show ?thesis using True
      by (cases p) (auto simp: extract_groups_def)
  next
    case False
    then show ?thesis using ih
      by (cases p) (auto simp: extract_groups_def)
  qed
qed

lemma extract_group_map:
  "extract_group llm_provider p (map (\<lambda>a. (chunks ! chunk_index a, a)) xs)
     = concat (map (\<lambda>a. case llm_provider (chunks ! chunk_index a) p of
                          Inr (PDict d) \<Rightarrow> [d] | _ \<Rightarrow> []) xs)"
  by (simp add: extract_group_def comp_def)

lemma extract_group_nil: "extract_group llm_provider p [] = []"
  by (simp add: extract_group_def)

lemma pass2_groups:
  assumes "list_all (\<lambda>a. is_str (content_type a) \<and> chunk_index a < length chunks) xs"
  shows "\<exists>g. group_chunks chunks xs = Inr g
     \<and> grouped_results llm_provider wt q chunks xs (extract_groups llm_provider wt q g)"
proof -
  from group_chunks_strings [OF assms] obtain g where
    g: "group_chunks chunks xs = Inr g" and d: "distinct (map fst g)"
    and m: "\<And>k. map_of g k
           = (if filter (\<lambda>a. content_type a = k) xs = [] then None
              else Some (map (\<lambda>a. (chunks ! chunk_index a, a))
                           (filter (\<lambda>a. content_type a = k) xs)))"
    by blast
  have "map_of (extract_groups llm_provider wt q g) (PStr s)
      = (if extracted_for llm_provider wt q chunks xs s = [] then None
         else Some (extracted_for llm_provider wt q chunks xs s))" for s
  proof (cases "filter (\<lambda>a. content_type a = PStr s) xs = []")
    case True
    then have "map_of g (PStr s) = None" "extracted_for llm_provider wt q chunks xs s = []"
      by (simp_all add: m extracted_for_def)
    then show ?thesis by (simp add: map_of_extract_groups [OF d])
  next
    case False
    then have "map_of g (PStr s)
        = Some (map (\<lambda>a. (chunks ! chunk_index a, a)) (filter (\<lambda>a. content_type a = PStr s) xs))"
      by (simp add: m)
    then show ?thesis
      by (simp add: map_of_extract_groups [OF d] extract_group_map extracted_for_def)
  qed
  with g show ?thesis unfolding grouped_results_def by blast
qed

text \<open>
  C4 (amended). Let every analysis have a string as content type, an index inside the list
  of chunks and a relevance score that is not NaN. Then the analyses have exactly one
  arrangement in priority order (priority ascending, within a priority the score descending,
  ties in their original order), and pass 2 runs on it: with a positive maximum the first
  \<open>max_chunks\<close> entries of that arrangement survive (all of them when there are fewer),
  with the maximum 0, as with none, every entry survives; the survivors are grouped by
  content type, each group in the order of the arrangement, one provider call is made per
  surviving chunk, and the dicts returned are what is aggregated.
\<close>

theorem pass2_processing_order:
  assumes "list_all (analysis_ok chunks) analyses"
  shows "(\<exists>ordered. priority_sorted analyses ordered)
     \<and> (\<forall>ordered. priority_sorted analyses ordered \<longrightarrow>
          (\<exists>ex. grouped_results llm_provider wt q chunks (spec_survivors max_chunks ordered) ex
                \<and> extract_from_prioritized_chunks lib chunks analyses wt q llm_provider max_chunks
                    = aggregate_extraction_results ex wt q))"
proof -
  from assms have nn: "list_all (\<lambda>a. relevance_score a \<noteq> NaN) analyses"
    and ok: "\<forall>a \<in> set analyses. is_str (content_type a) \<and> chunk_index a < length chunks"
    by (simp_all add: analysis_ok_def list_all_iff)
  let ?S = "sort_analyses lib analyses"
  have ps: "priority_sorted analyses ?S"
    by (rule sort_analyses_sorted [OF nn])
  then have "set ?S = set analyses"
    unfolding priority_sorted_def by (blast dest: mset_eq_setD)
  with ok survivors_subset [of max_chunks ?S]
  have "list_all (\<lambda>a. is_str (content_type a) \<and> chunk_index a < length chunks)
      (spec_survivors max_chunks ?S)"
    unfolding list_all_iff by blast
  from pass2_groups [OF this] obtain g where
    g: "group_chunks chunks (spec_survivors max_chunks ?S) = Inr g"
    and r: "grouped_results llm_provider wt q chunks (spec_survivors max_chunks ?S)
              (extract_groups llm_provider wt q g)"
    by blast
  have run: "extract_from_prioritized_chunks lib chunks analyses wt q llm_provider max_chunks
      = aggregate_extraction_results (extract_groups llm_provider wt q g) wt q"
    by (simp add: extract_from_prioritized_chunks_def Let_def cap_is_spec g then_ok_def)
  have "\<exists>ex. grouped_results llm_provider wt q chunks (spec_survivors max_chunks ordered) ex
      \<and> extract_from_prioritized_chunks lib chunks analyses wt q llm_provider max_chunks
          = aggregate_extraction_results ex wt q"
    if "priority_sorted analyses ordered" for ordered
  proof -
    from priority_sorted_unique [OF nn that] have "ordered = ?S" .
    with r run show ?thesis by blast
  qed
  with ps show ?thesis by blast
qed

theorem pass2_processing_order_witness:
  "list_all (analysis_ok three_chunks) three_analyses
   \<and> priority_sorted three_analyses
       [general_analysis 1 1 (7 / 10), general_analysis 2 1 (1 / 2), general_analysis 0 3 (9 / 10)]
   \<and> extract_from_prioritized_chunks ascii_lib three_chunks three_analyses GENERAL (str ''q'')
         echo_provider (Some 2)
       = Inr [(str ''informations_generales'',
               PDict [(str ''c1'', PBool True), (str ''last'', PStr (str ''c2'')),
                      (str ''c2'', PBool True)])]
   \<and> (\<exists>ex. grouped_results echo_provider GENERAL (str ''q'') three_chunks
               [general_analysis 1 1 (7 / 10), general_analysis 2 1 (1 / 2)] ex
            \<and> aggregate_extraction_results ex GENERAL (str ''q'')
                = Inr [(str ''informations_generales'',
                        PDict [(str ''c1'', PBool True), (str ''last'', PStr (str ''c2'')),
                               (str ''c2'', PBool True)])])"
proof -
  let ?S = "[general_analysis 1 1 (7 / 10), general_analysis 2 1 (1 / 2), general_analysis 0 3 (9 / 10)]"
  have ok: "list_all (analysis_ok three_chunks) three_analyses"
    by code_simp
  have nn: "list_all (\<lambda>a. relevance_score a \<noteq> NaN) three_analyses"
    by code_simp
  have s: "sort_analyses ascii_lib three_analyses = ?S"
    by code_simp
  have ps: "priority_sorted three_analyses ?S"
    using sort_analyses_sorted [OF nn, of ascii_lib] by (simp only: s)
  have run: "extract_from_prioritized_chunks ascii_lib three_chunks three_analyses GENERAL (str ''q'')
         echo_provider (Some 2)
       = Inr [(str ''informations_generales'',
               PDict [(str ''c1'', PBool True), (str ''last'', PStr (str ''c2'')),
                      (str ''c2'', PBool True)])]"
    by code_simp
  have cut: "spec_survivors (Some 2) ?S = [general_analysis 1 1 (7 / 10), general_analysis 2 1 (1 / 2)]"
    by (simp add: spec_survivors_def)
  from pass2_processing_order [OF ok, of echo_provider GENERAL "str ''q''" "Some 2" ascii_lib] ps
  obtain ex where
    "grouped_results echo_provider GENERAL (str ''q'') three_chunks (spec_survivors (Some 2) ?S) ex"
    "extract_from_prioritized_chunks ascii_lib three_chunks three_analyses GENERAL (str ''q'')
         echo_provider (Some 2) = aggregate_extraction_results ex GENERAL (str ''q'')"
    by blast
  with run cut have "\<exists>ex. grouped_results echo_provider GENERAL (str ''q'') three_chunks
               [general_analysis 1 1 (7 / 10), general_analysis 2 1 (1 / 2)] ex
            \<and> aggregate_extraction_results ex GENERAL (str ''q'')
                = Inr [(str ''informations_generales'',
                        PDict [(str ''c1'', PBool True), (str ''last'', PStr (str ''c2'')),
                               (str ''c2'', PBool True)])]"
    by auto
  with ok ps run show ?thesis by blast
qed

theorem cap_zero_counterexample:
  "extract_from_prioritized_chunks ascii_lib three_chunks three_analyses GENERAL (str ''q'')
       echo_provider (Some 0)
     = Inr [(str ''informations_generales'',
             PDict [(str ''c1'', PBool True), (str ''last'', PStr (str ''c0'')),
                    (str ''c2'', PBool True), (str ''c0'', PBool True)])]"
  by code_simp

end
